theory Spec2Isabelle
  imports Complex_Main
begin

section \<open>JavaScript numbers\<close>

text \<open>
  The collector (\<^verbatim>\<open>extension/content/injected-script.js\<close>) computes on JavaScript
  numbers. They are modelled as finite numbers with exact arithmetic: the value of a
  number is a \<^typ>\<open>real\<close>, and the rounding of double arithmetic, overflow, infinities
  and NaN are outside the model. Two pieces of the IEEE representation are kept. One is
  the sign of a zero, because \<^verbatim>\<open>Math.atan2\<close> observes it: \<^verbatim>\<open>Math.atan2(0, -1)\<close> is
  \<open>\<pi>\<close> and \<^verbatim>\<open>Math.atan2(-0, -1)\<close> is \<open>-\<pi>\<close>; \<open>Num 0\<close> is the positive zero. The
  other is the rounding of a store into a \<^verbatim>\<open>Float32Array\<close>, which keeps 24 significant
  bits (\<open>fround\<close> below): the grid and the EMA array are such arrays.
\<close>

datatype jsnum = Num real | NegZero

fun num_val :: "jsnum \<Rightarrow> real" where
  "num_val (Num x) = x"
| "num_val NegZero = 0"

fun sign_bit :: "jsnum \<Rightarrow> bool" where
  "sign_bit (Num x) = (x < 0)"
| "sign_bit NegZero = True"

text \<open>Unary minus: \<^verbatim>\<open>-v\<close> flips the sign, also of a zero.\<close>

fun negate :: "jsnum \<Rightarrow> jsnum" where
  "negate NegZero = Num 0"
| "negate (Num x) = (if x = 0 then NegZero else Num (- x))"

text \<open>\<^verbatim>\<open>Math.hypot(u, v)\<close>, \<^verbatim>\<open>Math.log1p(x)\<close> and \<^verbatim>\<open>Math.atan2(y, x)\<close>. The cases of
  \<open>atan2\<close> are those of the ECMAScript definition for finite arguments.\<close>

definition hypot :: "jsnum \<Rightarrow> jsnum \<Rightarrow> real" where
  "hypot u v = sqrt ((num_val u)\<^sup>2 + (num_val v)\<^sup>2)"

definition log1p :: "real \<Rightarrow> real" where
  "log1p x = ln (1 + x)"

definition atan2 :: "jsnum \<Rightarrow> jsnum \<Rightarrow> real" where
  "atan2 y x =
     (if 0 < num_val x then arctan (num_val y / num_val x)
      else if num_val x < 0 then
        (if sign_bit y then arctan (num_val y / num_val x) - pi
         else arctan (num_val y / num_val x) + pi)
      else if 0 < num_val y then pi / 2
      else if num_val y < 0 then - (pi / 2)
      else if sign_bit x then (if sign_bit y then - pi else pi)
      else 0)"

text \<open>
  The conversion of a number to float32 on a store into a \<^verbatim>\<open>Float32Array\<close> (the same
  as \<^verbatim>\<open>Math.fround\<close>): the nearest multiple of the unit in the last place, a tie going
  to the even multiple. The exponent is that of the number's binade, and \<open>-126\<close> for the
  subnormal numbers below \<open>2 ^ -126\<close>. Magnitudes at or beyond \<open>2 ^ 128\<close>, which a
  store turns into an infinity, are outside the model.
\<close>

definition roundTiesToEven :: "real \<Rightarrow> int" where
  "roundTiesToEven y =
     (let f = \<lfloor>y\<rfloor>; d = y - of_int f in
      if d < 1 / 2 then f
      else if 1 / 2 < d then f + 1
      else if even f then f else f + 1)"

definition float32_exponent :: "real \<Rightarrow> int" where
  "float32_exponent x = max \<lfloor>log 2 \<bar>x\<bar>\<rfloor> (- 126)"

definition fround :: "real \<Rightarrow> real" where
  "fround x =
     (if x = 0 then 0
      else
        let ulp = 2 powr of_int (float32_exponent x - 23)
        in of_int (roundTiesToEven (x / ulp)) * ulp)"

section \<open>Polar grid mathematics\<close>

text \<open>
  \<^verbatim>\<open>
  function angularWarp(phi, alpha) {
      const sign = Math.sign(phi);
      const x = Math.abs(phi) / Math.PI;
      const y = Math.log1p(alpha * x) / Math.log1p(alpha);
      return sign * y * Math.PI;
  }
  \<close>
\<close>

definition angularWarp :: "real \<Rightarrow> real \<Rightarrow> real" where
  "angularWarp phi alpha =
     (let sign = sgn phi;
          x = \<bar>phi\<bar> / pi;
          y = log1p (alpha * x) / log1p alpha
      in sign * y * pi)"

text \<open>
  \<^verbatim>\<open>
  function getPolarIndex(u, v, K, M, rmin, rmax, alpha) {
      const r = Math.hypot(u, v);
      if (r > rmax || r < rmin) return null;
      const phi = Math.atan2(v, u);
      const warpedPhi = angularWarp(phi, alpha);
      const theta = (warpedPhi + Math.PI) / (2 * Math.PI);
      const k = Math.min(K - 1, Math.max(0, Math.floor(K * theta)));
      const logFactor = Math.log(r / rmin) / Math.log(rmax / rmin);
      const j = Math.min(M - 1, Math.max(0, Math.floor(M * logFactor)));
      return [k, j];
  }
  \<close>
  \<open>null\<close> is \<open>None\<close>. The bin counts \<open>K\<close> and \<open>M\<close> are integers, and so are
  the two indices.
\<close>

definition getPolarIndex ::
  "jsnum \<Rightarrow> jsnum \<Rightarrow> int \<Rightarrow> int \<Rightarrow> real \<Rightarrow> real \<Rightarrow> real \<Rightarrow> (int \<times> int) option" where
  "getPolarIndex u v K M rmin rmax alpha =
     (let r = hypot u v in
      if r > rmax \<or> r < rmin then None
      else
        let phi = atan2 v u;
            warpedPhi = angularWarp phi alpha;
            theta = (warpedPhi + pi) / (2 * pi);
            k = min (K - 1) (max 0 \<lfloor>of_int K * theta\<rfloor>);
            logFactor = ln (r / rmin) / ln (rmax / rmin);
            j = min (M - 1) (max 0 \<lfloor>of_int M * logFactor\<rfloor>)
        in Some (k, j))"

section \<open>Configuration and grid\<close>

text \<open>
  The \<^verbatim>\<open>CONFIG\<close> object. \<^verbatim>\<open>BACKEND_URL\<close> and \<^verbatim>\<open>DEBUG_LOG\<close> only drive the network
  call and console logging and are left out.
\<close>

record config =
  ANGULAR_BINS :: int
  RADIAL_BINS :: int
  ALPHA_WARP :: real
  R_MIN :: real
  R_MAX :: real
  SAMPLE_RATE_HZ :: real
  EMA_BETA :: real
  SATURATION_FACTOR :: real
  CHANNELS :: int
  CH_FOOD :: int
  CH_ENEMY_BODY :: int
  CH_MY_BODY :: int
  CH_ENEMY_HEADS :: int
  USERNAME :: string

definition defaultConfig :: config where
  "defaultConfig =
     \<lparr>ANGULAR_BINS = 64, RADIAL_BINS = 24, ALPHA_WARP = 6, R_MIN = 60, R_MAX = 3200,
      SAMPLE_RATE_HZ = 10, EMA_BETA = 99 / 100, SATURATION_FACTOR = 3, CHANNELS = 4,
      CH_FOOD = 0, CH_ENEMY_BODY = 1, CH_MY_BODY = 2, CH_ENEMY_HEADS = 3,
      USERNAME = ''anonymous''\<rparr>"

datatype js_error = RangeError | TypeError

text \<open>
  A \<^verbatim>\<open>Float32Array\<close> is a list of numbers. \<^verbatim>\<open>new Float32Array(n)\<close> is all zero, and
  throws a RangeError for a negative length. A read outside the array is \<open>undefined\<close> and
  a write outside it is ignored.
\<close>

definition newFloat32Array :: "int \<Rightarrow> js_error + real list" where
  "newFloat32Array n = (if n < 0 then Inl RangeError else Inr (replicate (nat n) 0))"

definition gridSize :: "config \<Rightarrow> int" where
  "gridSize cfg = ANGULAR_BINS cfg * RADIAL_BINS cfg * CHANNELS cfg"

definition createPolarGrid :: "config \<Rightarrow> js_error + real list" where
  "createPolarGrid cfg = newFloat32Array (gridSize cfg)"

text \<open>
  \<^verbatim>\<open>
  function splatToGrid(grid, k, j, channel, weight = 0.25) {
      const idx = (j * CONFIG.ANGULAR_BINS + k) * CONFIG.CHANNELS + channel;
      grid[idx] = Math.min(1.0, grid[idx] + weight);
  }
  \<close>
  The store rounds to float32; a store outside the array is ignored.
\<close>

definition flatIndex :: "config \<Rightarrow> int \<Rightarrow> int \<Rightarrow> int \<Rightarrow> int" where
  "flatIndex cfg k j channel = (j * ANGULAR_BINS cfg + k) * CHANNELS cfg + channel"

definition splatToGrid :: "config \<Rightarrow> real list \<Rightarrow> int \<Rightarrow> int \<Rightarrow> int \<Rightarrow> real \<Rightarrow> real list" where
  "splatToGrid cfg grid k j channel weight =
     (let idx = flatIndex cfg k j channel in
      if 0 \<le> idx \<and> idx < int (length grid)
      then grid[nat idx := fround (min 1 (grid ! nat idx + weight))]
      else grid)"

text \<open>Splatting a sequence of weights into one cell, one call after the other.\<close>

definition splatAll :: "config \<Rightarrow> real list \<Rightarrow> int \<Rightarrow> int \<Rightarrow> int \<Rightarrow> real list \<Rightarrow> real list" where
  "splatAll cfg grid k j channel ws = foldl (\<lambda>g w. splatToGrid cfg g k j channel w) grid ws"

section \<open>Adaptive normalisation\<close>

text \<open>
  \<^verbatim>\<open>
  function normalizeGrid(grid, emaChannels) {
      for (let i = 0; i < grid.length; i++) {
          emaChannels[i] = CONFIG.EMA_BETA * emaChannels[i] + (1 - CONFIG.EMA_BETA) * grid[i];
          if (emaChannels[i] > 0) {
              grid[i] = Math.min(1.0, grid[i] / (CONFIG.SATURATION_FACTOR * emaChannels[i]));
          }
      }
  }
  \<close>
  Both arrays are updated in place; the model returns the pair of them. Both stores
  round to float32, and the test and the division read the EMA as stored. Where
  \<open>emaChannels\<close> is shorter than \<open>grid\<close>, the read is \<open>undefined\<close>, the write is
  ignored and the comparison with 0 is false, so nothing changes at that index.
\<close>

definition normalizeCell :: "config \<Rightarrow> nat \<Rightarrow> real list \<times> real list \<Rightarrow> real list \<times> real list" where
  "normalizeCell cfg i ge =
     (let grid = fst ge; emaChannels = snd ge in
      if i < length emaChannels then
        let e = fround (EMA_BETA cfg * emaChannels ! i + (1 - EMA_BETA cfg) * grid ! i);
            emaChannels' = emaChannels[i := e]
        in if e > 0
           then (grid[i := fround (min 1 (grid ! i / (SATURATION_FACTOR cfg * e)))],
                 emaChannels')
           else (grid, emaChannels')
      else (grid, emaChannels))"

definition normalizeGrid :: "config \<Rightarrow> real list \<Rightarrow> real list \<Rightarrow> real list \<times> real list" where
  "normalizeGrid cfg grid emaChannels =
     fold (normalizeCell cfg) [0..<length grid] (grid, emaChannels)"

text \<open>
  The sampling loop builds a fresh raw grid on every tick and normalises it against the
  one EMA array it keeps. \<open>emaAfter cfg G e n\<close> is that array after \<open>n\<close> ticks whose raw
  grids are \<open>G 0, \<dots>, G (n - 1)\<close>, and \<open>outAt cfg G e n\<close> is the normalised grid of
  tick \<open>n\<close>.
\<close>

fun emaAfter :: "config \<Rightarrow> (nat \<Rightarrow> real list) \<Rightarrow> real list \<Rightarrow> nat \<Rightarrow> real list" where
  "emaAfter cfg G e 0 = e"
| "emaAfter cfg G e (Suc n) = snd (normalizeGrid cfg (G n) (emaAfter cfg G e n))"


section \<open>Game objects\<close>

text \<open>
  Arithmetic on numbers: the value is exact and the sign of a zero result follows IEEE
  (a product is negative zero when the signs differ, a sum only when both summands are
  negative zeros).
\<close>

definition js_mul :: "jsnum \<Rightarrow> jsnum \<Rightarrow> jsnum" where
  "js_mul a b =
     (let p = num_val a * num_val b in
      if p = 0 then (if sign_bit a \<noteq> sign_bit b then NegZero else Num 0) else Num p)"

definition js_add :: "jsnum \<Rightarrow> jsnum \<Rightarrow> jsnum" where
  "js_add a b = (if a = NegZero \<and> b = NegZero then NegZero else Num (num_val a + num_val b))"

definition js_sub :: "jsnum \<Rightarrow> jsnum \<Rightarrow> jsnum" where
  "js_sub a b = js_add a (negate b)"

text \<open>
  A property of a game object as the script reads it: missing, NaN or a number. A value
  is truthy when it is a number other than zero; \<open>number_of\<close> is applied to numbers only.
\<close>

datatype jsval = Undefined | NaN | Number jsnum

fun truthy :: "jsval \<Rightarrow> bool" where
  "truthy (Number n) = (num_val n \<noteq> 0)"
| "truthy NaN = False"
| "truthy Undefined = False"

fun number_of :: "jsval \<Rightarrow> jsnum" where
  "number_of (Number n) = n"
| "number_of NaN = Num 0"
| "number_of Undefined = Num 0"

text \<open>\<^verbatim>\<open>v || d\<close> on a number-valued property.\<close>

definition or_else :: "jsval \<Rightarrow> real \<Rightarrow> real" where
  "or_else v d = (if truthy v then num_val (number_of v) else d)"

record food_item =
  food_xx :: jsval
  food_yy :: jsval
  food_sz :: jsval

record segment =
  seg_xx :: jsval
  seg_yy :: jsval

text \<open>A snake object; \<open>snake_ref\<close> is its identity, which \<^verbatim>\<open>snake === mySnake\<close> compares.\<close>

record snake =
  snake_ref :: nat
  snake_xx :: jsval
  snake_yy :: jsval
  snake_ang :: real
  snake_scl :: jsval
  snake_pts :: "segment option list option"

text \<open>The globals of the page the script reads. \<open>None\<close> is a global that is not set.\<close>

record window =
  win_slither :: "snake option"
  win_snake :: "snake option"
  win_slithers :: "snake option list option"
  win_snakes :: "snake option list option"
  win_foods :: "food_item option list option"
  win_xm :: jsval
  win_ym :: jsval
  win_ww :: jsval
  win_hh :: jsval
  win_ws_readyState :: "int option"

definition getMySnake :: "window \<Rightarrow> snake option" where
  "getMySnake win = (case win_slither win of Some s \<Rightarrow> Some s | None \<Rightarrow> win_snake win)"

definition getAllSnakes :: "window \<Rightarrow> snake option list" where
  "getAllSnakes win =
     (case win_slithers win of Some ss \<Rightarrow> ss
      | None \<Rightarrow> (case win_snakes win of Some ss \<Rightarrow> ss | None \<Rightarrow> []))"

definition getAllFood :: "window \<Rightarrow> food_item option list" where
  "getAllFood win = (case win_foods win of Some fs \<Rightarrow> fs | None \<Rightarrow> [])"

section \<open>Populating the grid\<close>

text \<open>
  One iteration of the loop of \<^verbatim>\<open>populateGridWithFood\<close>: an entry that is missing or has a
  coordinate that is not a number is skipped; otherwise the offset is rotated into the
  observer's frame and splatted with weight \<^verbatim>\<open>(food.sz || 1) * 0.1\<close> when it is in range.
\<close>

definition foodStep :: "config \<Rightarrow> snake \<Rightarrow> food_item option \<Rightarrow> real list \<times> nat \<Rightarrow> real list \<times> nat" where
  "foodStep cfg mySnake food acc =
     (case food of
        None \<Rightarrow> acc
      | Some f \<Rightarrow>
          (case (food_xx f, food_yy f) of
             (Number fx, Number fy) \<Rightarrow>
               let cos_ang = Num (cos (snake_ang mySnake));
                   sin_ang = Num (sin (snake_ang mySnake));
                   dx = js_sub fx (number_of (snake_xx mySnake));
                   dy = js_sub fy (number_of (snake_yy mySnake));
                   u = js_add (js_mul dx cos_ang) (js_mul dy sin_ang);
                   v = js_add (js_mul (negate dx) sin_ang) (js_mul dy cos_ang)
               in (case getPolarIndex u v (ANGULAR_BINS cfg) (RADIAL_BINS cfg)
                          (R_MIN cfg) (R_MAX cfg) (ALPHA_WARP cfg) of
                     None \<Rightarrow> acc
                   | Some (k, j) \<Rightarrow>
                       (splatToGrid cfg (fst acc) k j (CH_FOOD cfg) (or_else (food_sz f) 1 * (1 / 10)),
                        snd acc + 1))
           | _ \<Rightarrow> acc))"

definition populateGridWithFood :: "config \<Rightarrow> window \<Rightarrow> real list \<Rightarrow> snake \<Rightarrow> real list \<times> nat" where
  "populateGridWithFood cfg win grid mySnake =
     fold (foodStep cfg mySnake) (getAllFood win) (grid, 0)"

record snakeData =
  enemySegments :: nat
  mySegments :: nat
  enemyHeads :: nat

text \<open>
  One iteration of the inner loop of \<^verbatim>\<open>populateGridWithSnakes\<close>, for the segment at
  index \<open>i\<close> of a snake: the observer's own body goes to its own channel, another
  snake's to the enemy channel, and its first point also to the head channel at double
  weight.
\<close>

definition segmentStep ::
  "config \<Rightarrow> snake \<Rightarrow> snake \<Rightarrow> nat \<times> segment option \<Rightarrow> real list \<times> snakeData \<Rightarrow> real list \<times> snakeData" where
  "segmentStep cfg mySnake sn iseg acc =
     (case snd iseg of
        None \<Rightarrow> acc
      | Some seg \<Rightarrow>
          (case (seg_xx seg, seg_yy seg) of
             (Number sx, Number sy) \<Rightarrow>
               let cos_ang = Num (cos (snake_ang mySnake));
                   sin_ang = Num (sin (snake_ang mySnake));
                   dx = js_sub sx (number_of (snake_xx mySnake));
                   dy = js_sub sy (number_of (snake_yy mySnake));
                   u = js_add (js_mul dx cos_ang) (js_mul dy sin_ang);
                   v = js_add (js_mul (negate dx) sin_ang) (js_mul dy cos_ang)
               in (case getPolarIndex u v (ANGULAR_BINS cfg) (RADIAL_BINS cfg)
                          (R_MIN cfg) (R_MAX cfg) (ALPHA_WARP cfg) of
                     None \<Rightarrow> acc
                   | Some (k, j) \<Rightarrow>
                       let grid = fst acc; d = snd acc;
                           weight = or_else (snake_scl sn) 1 * (3 / 10)
                       in if snake_ref sn = snake_ref mySnake
                          then (splatToGrid cfg grid k j (CH_MY_BODY cfg) weight,
                                d\<lparr>mySegments := mySegments d + 1\<rparr>)
                          else
                            let g1 = splatToGrid cfg grid k j (CH_ENEMY_BODY cfg) weight;
                                d1 = d\<lparr>enemySegments := enemySegments d + 1\<rparr>
                            in if fst iseg = 0
                               then (splatToGrid cfg g1 k j (CH_ENEMY_HEADS cfg) (weight * 2),
                                     d1\<lparr>enemyHeads := enemyHeads d1 + 1\<rparr>)
                               else (g1, d1))
           | _ \<Rightarrow> acc))"

definition snakeStep ::
  "config \<Rightarrow> snake \<Rightarrow> snake option \<Rightarrow> real list \<times> snakeData \<Rightarrow> real list \<times> snakeData" where
  "snakeStep cfg mySnake entry acc =
     (case entry of
        None \<Rightarrow> acc
      | Some sn \<Rightarrow>
          (case snake_pts sn of
             None \<Rightarrow> acc
           | Some segments \<Rightarrow>
               fold (segmentStep cfg mySnake sn) (zip [0..<length segments] segments) acc))"

definition populateGridWithSnakes ::
  "config \<Rightarrow> window \<Rightarrow> real list \<Rightarrow> snake \<Rightarrow> real list \<times> snakeData" where
  "populateGridWithSnakes cfg win grid mySnake =
     fold (snakeStep cfg mySnake) (getAllSnakes win)
       (grid, \<lparr>enemySegments = 0, mySegments = 0, enemyHeads = 0\<rparr>)"

section \<open>The sampling scheduler\<close>

text \<open>
  The variables of the script, \<^verbatim>\<open>CONFIG\<close>, \<^verbatim>\<open>gameState\<close> and \<^verbatim>\<open>samplingState\<close>, in
  one record. \<open>samplingInterval\<close> holds the period of the running timer.
\<close>

record script =
  CONFIG :: config
  gameRadius :: "real option"
  isActive :: bool
  sessionId :: "string option"
  frameCount :: nat
  validFrames :: nat
  errors :: nat
  lastSampleTime :: real
  previousPosition :: "(real \<times> real) option"
  emaChannels :: "real list option"
  isBoosting :: bool
  isCollecting :: bool
  samplingInterval :: "real option"

definition initialScript :: script where
  "initialScript =
     \<lparr>CONFIG = defaultConfig, gameRadius = None, isActive = False, sessionId = None,
      frameCount = 0, validFrames = 0, errors = 0, lastSampleTime = 0,
      previousPosition = None, emaChannels = None, isBoosting = False,
      isCollecting = False, samplingInterval = None\<rparr>"

text \<open>The \<^verbatim>\<open>dataPackage\<close> of one tick, its nested objects flattened.\<close>

record frame =
  timestamp :: real
  frame_sessionId :: "string option"
  frameIndex :: nat
  deltaTime :: real
  username :: string
  grid :: "real list"
  gridMeta :: config
  heading :: real
  headingSin :: real
  headingCos :: real
  velocity :: real
  boost :: bool
  distanceToBorder :: real
  frame_gameRadius :: real
  snakeLength :: nat
  input_mx :: real
  input_my :: real
  input_boost :: nat
  hasSnake :: bool
  hasGlobals :: bool
  hasWebSocket :: bool
  hasInput :: bool
  foodCount :: nat
  debug :: snakeData

datatype message =
  SLITHER_DATA_FRAME frame
| SLITHER_ERROR js_error
| SLITHER_STATUS bool "string option"

text \<open>\<^verbatim>\<open>Date.now().toString()\<close>: the decimal digits of the millisecond clock.\<close>

function toString :: "nat \<Rightarrow> string" where
  "toString n =
     (if n < 10 then [''0123456789'' ! n]
      else toString (n div 10) @ [''0123456789'' ! (n mod 10)])"
  by pat_completeness auto
termination
  by (relation "measure id") auto

declare toString.simps [simp del]

text \<open>
  \<^verbatim>\<open>
  function capturePlayerInput(mySnake) {
      const mouse = getMousePosition();
      const centerX = mouse.screenWidth / 2;
      const centerY = mouse.screenHeight / 2;
      const dx = (mouse.x - centerX) / centerX;
      const dy = (mouse.y - centerY) / centerY;
      const cos_ang = Math.cos(mySnake.ang);
      const sin_ang = Math.sin(mySnake.ang);
      const mx = dx * cos_ang + dy * sin_ang;
      const my = -dx * sin_ang + dy * cos_ang;
      const norm = Math.max(1.0, Math.hypot(mx, my));
      return { mx: mx / norm, my: my / norm, boost: samplingState.isBoosting ? 1 : 0 };
  }
  \<close>
\<close>

definition capturePlayerInput :: "window \<Rightarrow> script \<Rightarrow> snake \<Rightarrow> real \<times> real \<times> nat" where
  "capturePlayerInput win s mySnake =
     (let x = or_else (win_xm win) 0;
          y = or_else (win_ym win) 0;
          screenWidth = or_else (win_ww win) 800;
          screenHeight = or_else (win_hh win) 600;
          centerX = screenWidth / 2;
          centerY = screenHeight / 2;
          dx = (x - centerX) / centerX;
          dy = (y - centerY) / centerY;
          cos_ang = cos (snake_ang mySnake);
          sin_ang = sin (snake_ang mySnake);
          mx = dx * cos_ang + dy * sin_ang;
          my = - dx * sin_ang + dy * cos_ang;
          norm = max 1 (sqrt (mx\<^sup>2 + my\<^sup>2))
      in (mx / norm, my / norm, if isBoosting s then 1 else 0))"

text \<open>
  The part of \<^verbatim>\<open>sampleGameState\<close> after the position checks, for the snake \<open>mySnake\<close>
  whose \<open>xx\<close> and \<open>yy\<close> are truthy: velocity and border distance, a fresh grid,
  population, normalisation, the player input, and the frame posted to the content
  script. An exception (a negative grid size, or a missing EMA array when the grid has a
  cell) reaches the outer \<^verbatim>\<open>catch\<close>, which counts an error and posts
  \<^verbatim>\<open>SLITHER_ERROR\<close>; \<open>previousPosition\<close> has been assigned by then. The two
  population functions throw on no input of the model, so the inner \<^verbatim>\<open>catch\<close> around
  them has no branch here.
\<close>

definition sampleFrame :: "real \<Rightarrow> real \<Rightarrow> window \<Rightarrow> snake \<Rightarrow> script \<Rightarrow> script \<times> message list" where
  "sampleFrame now dt win mySnake s =
     (let cx = num_val (number_of (snake_xx mySnake));
          cy = num_val (number_of (snake_yy mySnake));
          vel = (case previousPosition s of
                   Some (px, py) \<Rightarrow> if dt > 0 then sqrt ((cx - px)\<^sup>2 + (cy - py)\<^sup>2) / dt else 0
                 | None \<Rightarrow> 0);
          s1 = s\<lparr>previousPosition := Some (cx, cy)\<rparr>;
          gr = (case gameRadius s of Some g \<Rightarrow> if g \<noteq> 0 then g else 21600 | None \<Rightarrow> 21600);
          distanceToCenter = sqrt ((cx - gr)\<^sup>2 + (cy - gr)\<^sup>2);
          dtb = max 0 (gr - distanceToCenter);
          cfg = CONFIG s
      in case createPolarGrid cfg of
           Inl e \<Rightarrow> (s1\<lparr>errors := errors s1 + 1\<rparr>, [SLITHER_ERROR e])
         | Inr g0 \<Rightarrow>
             let fd = populateGridWithFood cfg win g0 mySnake;
                 sd = populateGridWithSnakes cfg win (fst fd) mySnake
             in if emaChannels s1 = None \<and> fst sd \<noteq> []
                then (s1\<lparr>errors := errors s1 + 1\<rparr>, [SLITHER_ERROR TypeError])
                else
                  let ge = (case emaChannels s1 of
                              None \<Rightarrow> (fst sd, None)
                            | Some ema \<Rightarrow>
                                (let r = normalizeGrid cfg (fst sd) ema in (fst r, Some (snd r))));
                      playerInput = capturePlayerInput win s1 mySnake;
                      dataPackage =
                        \<lparr>timestamp = now, frame_sessionId = sessionId s1,
                         frameIndex = frameCount s1, deltaTime = dt, username = USERNAME cfg,
                         grid = fst ge, gridMeta = cfg,
                         heading = snake_ang mySnake,
                         headingSin = sin (snake_ang mySnake),
                         headingCos = cos (snake_ang mySnake),
                         velocity = vel, boost = isBoosting s1, distanceToBorder = dtb,
                         frame_gameRadius = gr,
                         snakeLength = (case snake_pts mySnake of Some pts \<Rightarrow> length pts | None \<Rightarrow> 0),
                         input_mx = fst playerInput, input_my = fst (snd playerInput),
                         input_boost = snd (snd playerInput),
                         hasSnake = True,
                         hasGlobals = (win_snakes win \<noteq> None \<and> win_foods win \<noteq> None),
                         hasWebSocket = (win_ws_readyState win = Some 1),
                         hasInput = True,
                         foodCount = snd fd, debug = snd sd\<rparr>
                  in (s1\<lparr>emaChannels := snd ge, validFrames := validFrames s1 + 1,
                          lastSampleTime := now\<rparr>,
                      [SLITHER_DATA_FRAME dataPackage]))"

text \<open>
  \<^verbatim>\<open>sampleGameState\<close>, one tick at time \<open>now\<close>: the new state and the messages posted.
  \<^verbatim>\<open>
      if (!samplingState.isCollecting) { ... return; }
      const now = performance.now();
      const deltaTime = (now - samplingState.lastSampleTime) / 1000.0;
      gameState.frameCount++;
      try {
          const mySnake = getMySnake();
          if (!mySnake) { ... return; }
          if (!mySnake.xx || !mySnake.yy) { ... return; }
          ...
  \<close>
\<close>

definition sampleGameState :: "real \<Rightarrow> window \<Rightarrow> script \<Rightarrow> script \<times> message list" where
  "sampleGameState now win s =
     (if \<not> isCollecting s then (s, [])
      else
        let dt = (now - lastSampleTime s) / 1000;
            s1 = s\<lparr>frameCount := frameCount s + 1\<rparr>
        in case getMySnake win of
             None \<Rightarrow> (s1, [])
           | Some mySnake \<Rightarrow>
               if \<not> truthy (snake_xx mySnake) \<or> \<not> truthy (snake_yy mySnake) then (s1, [])
               else sampleFrame now dt win mySnake s1)"

text \<open>
  \<^verbatim>\<open>
  function startCollection() {
      if (samplingState.isCollecting) return;
      samplingState.isCollecting = true;
      gameState.sessionId = Date.now().toString();
      samplingState.emaChannels = new Float32Array(CONFIG.ANGULAR_BINS * CONFIG.RADIAL_BINS * CONFIG.CHANNELS);
      samplingState.samplingInterval = setInterval(sampleGameState, 1000 / CONFIG.SAMPLE_RATE_HZ);
      window.postMessage({ type: 'SLITHER_STATUS',
          status: { collecting: true, sessionId: gameState.sessionId } }, '*');
  }
  \<close>
  \<open>dateNow\<close> is the value of \<^verbatim>\<open>Date.now()\<close>. The result is the new state, the messages
  posted and the exception thrown, if any: a negative array length throws after the
  first two assignments.
\<close>

definition startCollection :: "nat \<Rightarrow> script \<Rightarrow> script \<times> message list \<times> js_error option" where
  "startCollection dateNow s =
     (if isCollecting s then (s, [], None)
      else
        let s1 = s\<lparr>isCollecting := True, sessionId := Some (toString dateNow)\<rparr>
        in case newFloat32Array (gridSize (CONFIG s1)) of
             Inl e \<Rightarrow> (s1, [], Some e)
           | Inr ema \<Rightarrow>
               (s1\<lparr>emaChannels := Some ema,
                    samplingInterval := Some (1000 / SAMPLE_RATE_HZ (CONFIG s1))\<rparr>,
                [SLITHER_STATUS True (sessionId s1)], None))"

text \<open>
  \<^verbatim>\<open>
  function stopCollection() {
      if (!samplingState.isCollecting) return;
      samplingState.isCollecting = false;
      if (samplingState.samplingInterval) {
          clearInterval(samplingState.samplingInterval);
          samplingState.samplingInterval = null;
      }
      window.postMessage({ type: 'SLITHER_STATUS', status: { collecting: false } }, '*');
  }
  \<close>
\<close>

definition stopCollection :: "script \<Rightarrow> script \<times> message list" where
  "stopCollection s =
     (if \<not> isCollecting s then (s, [])
      else (s\<lparr>isCollecting := False, samplingInterval := None\<rparr>, [SLITHER_STATUS False None]))"

section \<open>Lemmas on the number model\<close>

lemma hypot_axis: "hypot (Num a) (Num 0) = \<bar>a\<bar>"
  by (simp add: hypot_def)

lemma hypot_negate: "hypot u (negate v) = hypot u v"
  by (cases v) (simp_all add: hypot_def)

lemma num_val_negate: "num_val (negate v) = - num_val v"
  by (cases v) simp_all

lemma sign_bit_negate: "sign_bit (negate v) = (\<not> sign_bit v)"
  by (cases v) auto

lemma atan2_negate: "atan2 (negate v) u = - atan2 v u"
  by (simp add: atan2_def num_val_negate sign_bit_negate arctan_minus)

lemma sign_bit_val: "sign_bit v \<Longrightarrow> num_val v \<le> 0"
  by (cases v) simp_all

lemma not_sign_bit_val: "\<not> sign_bit v \<Longrightarrow> 0 \<le> num_val v"
  by (cases v) simp_all

lemma atan2_bounds: "- pi \<le> atan2 v u \<and> atan2 v u \<le> pi"
proof -
  let ?q = "num_val v / num_val u"
  have b: "- (pi / 2) < arctan ?q" "arctan ?q < pi / 2"
    by (rule arctan_lbound, rule arctan_ubound)
  have pos: "0 < pi" by simp
  show ?thesis
  proof (cases "0 < num_val u")
    case True
    then have "atan2 v u = arctan ?q" by (simp add: atan2_def)
    then show ?thesis using b pos by linarith
  next
    case False
    note nu = False
    show ?thesis
    proof (cases "num_val u < 0")
      case True
      show ?thesis
      proof (cases "sign_bit v")
        case True
        with \<open>num_val u < 0\<close> have "0 \<le> ?q"
          using sign_bit_val [of v] by (simp add: divide_nonpos_neg)
        then have "0 \<le> arctan ?q" by simp
        moreover have "atan2 v u = arctan ?q - pi"
          using True \<open>num_val u < 0\<close> by (simp add: atan2_def)
        ultimately show ?thesis using b pos by linarith
      next
        case False
        with \<open>num_val u < 0\<close> have "?q \<le> 0"
          using not_sign_bit_val [of v] by (simp add: divide_nonneg_neg)
        then have "arctan ?q \<le> 0" by simp
        moreover have "atan2 v u = arctan ?q + pi"
          using False \<open>num_val u < 0\<close> by (simp add: atan2_def)
        ultimately show ?thesis using b pos by linarith
      qed
    next
      case False
      with nu have "atan2 v u = pi / 2 \<or> atan2 v u = - (pi / 2) \<or> atan2 v u = - pi
          \<or> atan2 v u = pi \<or> atan2 v u = 0"
        by (simp add: atan2_def)
      then show ?thesis using pos by (elim disjE) linarith+
    qed
  qed
qed

section \<open>Lemmas on the polar transform\<close>

lemma angularWarp_odd: "angularWarp (- phi) alpha = - angularWarp phi alpha"
  by (simp add: angularWarp_def Let_def sgn_minus)

lemma angularWarp_bounds:
  assumes "0 < alpha" "\<bar>phi\<bar> \<le> pi"
  shows "\<bar>angularWarp phi alpha\<bar> \<le> pi"
proof -
  define x where "x = \<bar>phi\<bar> / pi"
  define y where "y = log1p (alpha * x) / log1p alpha"
  have x: "0 \<le> x" "x \<le> 1" using assms by (simp_all add: x_def)
  have ax: "0 \<le> alpha * x" "alpha * x \<le> alpha"
    using assms x by (simp_all add: mult_left_le)
  have d: "0 < log1p alpha" using assms by (simp add: log1p_def)
  have n: "0 \<le> log1p (alpha * x)" "log1p (alpha * x) \<le> log1p alpha"
    using ax by (simp_all add: log1p_def)
  have y: "0 \<le> y" "y \<le> 1" using d n by (simp_all add: y_def)
  have "angularWarp phi alpha = sgn phi * y * pi"
    by (simp add: angularWarp_def Let_def x_def y_def)
  then have "\<bar>angularWarp phi alpha\<bar> = \<bar>sgn phi\<bar> * y * pi"
    using y by (simp add: abs_mult)
  also have "\<dots> \<le> 1 * 1 * pi"
    by (intro mult_mono) (use y in \<open>simp_all add: abs_sgn_eq\<close>)
  finally show ?thesis by simp
qed

lemma mirror_bins:
  fixes K :: int and t :: real
  assumes "1 \<le> K" "0 \<le> t" "t \<le> 1"
  shows "min (K - 1) (max 0 \<lfloor>of_int K * (1 - t)\<rfloor>) = K - 1 - min (K - 1) (max 0 \<lfloor>of_int K * t\<rfloor>)
       \<or> min (K - 1) (max 0 \<lfloor>of_int K * (1 - t)\<rfloor>) = K - min (K - 1) (max 0 \<lfloor>of_int K * t\<rfloor>)"
proof -
  define x where "x = of_int K * t"
  define f where "f = \<lfloor>x\<rfloor>"
  define g where "g = \<lfloor>of_int K - x\<rfloor>"
  have x: "0 \<le> x" "x \<le> of_int K" using assms by (simp_all add: x_def mult_left_le)
  have f: "of_int f \<le> x" "x < of_int f + 1" by (simp_all add: f_def)
  have g: "of_int g \<le> of_int K - x" "of_int K - x < of_int g + 1" by (simp_all add: g_def)
  have e: "of_int K * (1 - t) = of_int K - x" by (simp add: x_def algebra_simps)
  have "real_of_int f < real_of_int (K + 1)" using f x by simp
  then have f1: "f \<le> K" by linarith
  have "real_of_int (- 1) < real_of_int f" using f x by simp
  then have f0: "0 \<le> f" by linarith
  have "real_of_int (K - f - 2) < real_of_int g" using f g by simp
  then have g1: "K - f - 1 \<le> g" by linarith
  have "real_of_int g < real_of_int (K - f + 1)" using f g by simp
  then have g2: "g \<le> K - f" by linarith
  have fK: "f = K \<Longrightarrow> g = 0"
  proof -
    assume "f = K"
    then have "x = of_int K" using f x by simp
    then show "g = 0" by (simp add: g_def)
  qed
  have gK: "g = K \<Longrightarrow> f = 0"
  proof -
    assume "g = K"
    then have "x = 0" using g x by simp
    then show "f = 0" by (simp add: f_def)
  qed
  show ?thesis unfolding e
    unfolding x_def[symmetric] f_def[symmetric] g_def[symmetric]
    using f0 f1 g1 g2 fK gK assms(1) by (auto simp: min_def max_def)
qed

lemma getPolarIndex_in_range:
  assumes "rmin \<le> hypot u v" and "hypot u v \<le> rmax"
  shows "getPolarIndex u v K M rmin rmax alpha =
           Some (min (K - 1) (max 0 \<lfloor>of_int K * ((angularWarp (atan2 v u) alpha + pi) / (2 * pi))\<rfloor>),
                 min (M - 1) (max 0 \<lfloor>of_int M * (ln (hypot u v / rmin) / ln (rmax / rmin))\<rfloor>))"
  using assms unfolding getPolarIndex_def Let_def
  by (simp del: times_divide_eq_right times_divide_eq_left)

lemma clamp_bounds:
  fixes K :: int
  assumes "1 \<le> K"
  shows "0 \<le> min (K - 1) (max 0 x)" and "min (K - 1) (max 0 x) < K"
  using assms by (simp_all add: min_def max_def)

text \<open>
  Claim C1. An offset whose radius \<open>hypot u v\<close> is below \<open>rmin\<close> or above \<open>rmax\<close> is
  answered with \<open>null\<close>, and an offset whose radius lies in \<open>[rmin, rmax]\<close> with a pair
  of indices. The result is a value of the function, which reads its arguments only:
  no state is passed in or returned.
\<close>

theorem getPolarIndex_null_iff_out_of_range:
  "(hypot u v < rmin \<or> hypot u v > rmax \<longrightarrow> getPolarIndex u v K M rmin rmax alpha = None) \<and>
   (rmin \<le> hypot u v \<and> hypot u v \<le> rmax \<longrightarrow>
      (\<exists>k j. getPolarIndex u v K M rmin rmax alpha = Some (k, j)))"
  by (auto simp: getPolarIndex_def Let_def)

theorem getPolarIndex_null_iff_out_of_range_witness:
  "hypot (Num 10) (Num 0) < 60 \<and> getPolarIndex (Num 10) (Num 0) 64 24 60 3200 6 = None \<and>
   60 \<le> hypot (Num 100) (Num 0) \<and> hypot (Num 100) (Num 0) \<le> 3200 \<and>
   (\<exists>k j. getPolarIndex (Num 100) (Num 0) 64 24 60 3200 6 = Some (k, j))"
  using getPolarIndex_null_iff_out_of_range
          [where u = "Num 10" and v = "Num 0" and rmin = 60 and rmax = 3200 and K = 64
             and M = 24 and alpha = 6]
        getPolarIndex_null_iff_out_of_range
          [where u = "Num 100" and v = "Num 0" and rmin = 60 and rmax = 3200 and K = 64
             and M = 24 and alpha = 6]
  by (simp add: hypot_axis)

text \<open>
  Claim C2. With at least one angular and one radial bin, \<open>0 < rmin < rmax\<close> and
  \<open>alpha \<ge> 1\<close>, an offset in range gets indices \<open>0 \<le> k < K\<close> and \<open>0 \<le> j < M\<close>.
\<close>

theorem getPolarIndex_in_bounds:
  assumes "1 \<le> K" and "1 \<le> M" and "0 < rmin" and "rmin < rmax" and "1 \<le> alpha"
    and "rmin \<le> hypot u v" and "hypot u v \<le> rmax"
  shows "\<exists>k j. getPolarIndex u v K M rmin rmax alpha = Some (k, j) \<and>
           0 \<le> k \<and> k < K \<and> 0 \<le> j \<and> j < M"
  unfolding getPolarIndex_in_range [OF assms(6,7)]
  using clamp_bounds [OF assms(1)] clamp_bounds [OF assms(2)] by blast

theorem getPolarIndex_in_bounds_witness:
  "(1::int) \<le> 64 \<and> (1::int) \<le> 24 \<and> (0::real) < 60 \<and> (60::real) < 3200 \<and> (1::real) \<le> 6 \<and>
   60 \<le> hypot (Num 100) (Num 0) \<and> hypot (Num 100) (Num 0) \<le> 3200 \<and>
   (\<exists>k j. getPolarIndex (Num 100) (Num 0) 64 24 60 3200 6 = Some (k, j) \<and>
      0 \<le> k \<and> k < 64 \<and> 0 \<le> j \<and> j < 24)"
proof -
  have r: "60 \<le> hypot (Num 100) (Num 0)" "hypot (Num 100) (Num 0) \<le> 3200"
    by (simp_all add: hypot_axis)
  from getPolarIndex_in_bounds [of 64 24 60 3200 6 "Num 100" "Num 0", OF _ _ _ _ _ r] r
  show ?thesis by simp
qed

lemma clamp_mono:
  fixes a b c :: int
  shows "a \<le> b \<Longrightarrow> min c (max 0 a) \<le> min c (max 0 b)"
  by (auto simp: min_def max_def)

lemma radial_bin_mono:
  fixes M :: int and rmin rmax r1 r2 :: real
  assumes "0 < rmin" "rmin < rmax" "rmin \<le> r1" "r1 \<le> r2"
  shows "min (M - 1) (max 0 \<lfloor>of_int M * (ln (r1 / rmin) / ln (rmax / rmin))\<rfloor>)
       \<le> min (M - 1) (max 0 \<lfloor>of_int M * (ln (r2 / rmin) / ln (rmax / rmin))\<rfloor>)"
proof -
  define d where "d = ln (rmax / rmin)"
  define l1 where "l1 = ln (r1 / rmin) / d"
  define l2 where "l2 = ln (r2 / rmin) / d"
  have "1 < rmax / rmin" using assms by simp
  then have d: "0 < d" unfolding d_def by (rule ln_gt_zero)
  have q: "1 \<le> r1 / rmin" "r1 / rmin \<le> r2 / rmin"
    using assms by (simp_all add: divide_right_mono)
  then have "0 \<le> ln (r1 / rmin)" "ln (r1 / rmin) \<le> ln (r2 / rmin)"
    by simp_all
  then have l: "0 \<le> l1" "l1 \<le> l2"
    using d by (simp_all add: l1_def l2_def divide_right_mono)
  show ?thesis
  proof (cases "0 \<le> M")
    case True
    then have "of_int M * l1 \<le> of_int M * l2"
      using l by (simp add: mult_left_mono)
    then have "\<lfloor>of_int M * l1\<rfloor> \<le> \<lfloor>of_int M * l2\<rfloor>" by (rule floor_mono)
    then show ?thesis
      unfolding l1_def [symmetric] l2_def [symmetric] d_def [symmetric]
      by (rule clamp_mono)
  next
    case False
    then have "min (M - 1) (max 0 x) = M - 1" for x :: int
      by (simp add: min_def max_def)
    then show ?thesis by simp
  qed
qed

text \<open>
  Claim C6. Of two offsets in range, the one with the larger radius never has the
  smaller radial index. The radial index does not depend on the angle, so this holds for
  any two angles, in particular for equal ones.
\<close>

theorem radial_index_monotone:
  assumes "0 < rmin" and "rmin < rmax"
    and "rmin \<le> hypot u1 v1" and "hypot u1 v1 \<le> hypot u2 v2" and "hypot u2 v2 \<le> rmax"
  shows "\<exists>k1 j1 k2 j2.
           getPolarIndex u1 v1 K M rmin rmax alpha = Some (k1, j1) \<and>
           getPolarIndex u2 v2 K M rmin rmax alpha = Some (k2, j2) \<and> j1 \<le> j2"
proof -
  have r: "rmin \<le> hypot u2 v2" "hypot u1 v1 \<le> rmax" using assms by simp_all
  show ?thesis
    unfolding getPolarIndex_in_range [OF assms(3) r(2)] getPolarIndex_in_range [OF r(1) assms(5)]
    using radial_bin_mono [OF assms(1,2,3,4), of M] by blast
qed

theorem radial_index_monotone_witness:
  "(0::real) < 60 \<and> (60::real) < 3200 \<and> 60 \<le> hypot (Num 100) (Num 0) \<and>
   hypot (Num 100) (Num 0) \<le> hypot (Num 3000) (Num 0) \<and> hypot (Num 3000) (Num 0) \<le> 3200 \<and>
   (\<exists>k1 j1 k2 j2.
      getPolarIndex (Num 100) (Num 0) 64 24 60 3200 6 = Some (k1, j1) \<and>
      getPolarIndex (Num 3000) (Num 0) 64 24 60 3200 6 = Some (k2, j2) \<and> j1 \<le> j2)"
proof -
  have r: "60 \<le> hypot (Num 100) (Num 0)" "hypot (Num 100) (Num 0) \<le> hypot (Num 3000) (Num 0)"
    "hypot (Num 3000) (Num 0) \<le> 3200"
    by (simp_all add: hypot_axis)
  from radial_index_monotone [of 60 3200 "Num 100" "Num 0" "Num 3000" "Num 0" 64 24 6, OF _ _ r] r
  show ?thesis by simp
qed

text \<open>
  Claim C7. For \<open>alpha \<ge> 1\<close> and an offset in range, the angular bin of \<open>(u, -v)\<close> is the
  mirror image \<open>K - 1 - k\<close> of the bin \<open>k\<close> of \<open>(u, v)\<close>, or the bin next to it
  (\<open>K - k\<close>, when \<open>K * theta\<close> falls on a bin boundary); the radial bin is the same.
\<close>

theorem angular_index_mirror:
  assumes "1 \<le> K" and "1 \<le> alpha" and "rmin \<le> hypot u v" and "hypot u v \<le> rmax"
  shows "\<exists>k j k'.
           getPolarIndex u v K M rmin rmax alpha = Some (k, j) \<and>
           getPolarIndex u (negate v) K M rmin rmax alpha = Some (k', j) \<and>
           (k' = K - 1 - k \<or> k' = K - k)"
proof -
  define w where "w = angularWarp (atan2 v u) alpha"
  define t where "t = (w + pi) / (2 * pi)"
  have "\<bar>atan2 v u\<bar> \<le> pi" using atan2_bounds [of v u] by (simp add: abs_le_iff)
  then have "\<bar>w\<bar> \<le> pi" unfolding w_def using assms(2) by (intro angularWarp_bounds) simp_all
  then have t: "0 \<le> t" "t \<le> 1" by (simp_all add: t_def abs_le_iff field_simps)
  have t': "(angularWarp (atan2 (negate v) u) alpha + pi) / (2 * pi) = 1 - t"
    by (simp add: atan2_negate angularWarp_odd w_def [symmetric] t_def field_simps)
  have r': "rmin \<le> hypot u (negate v)" "hypot u (negate v) \<le> rmax"
    using assms(3,4) by (simp_all add: hypot_negate)
  show ?thesis
    unfolding getPolarIndex_in_range [OF assms(3,4)] getPolarIndex_in_range [OF r'] t'
      hypot_negate w_def [symmetric] t_def [symmetric]
    using mirror_bins [OF assms(1) t] by blast
qed

theorem angular_index_mirror_witness:
  "(1::int) \<le> 64 \<and> (1::real) \<le> 6 \<and> 60 \<le> hypot (Num (- 100)) (Num 0) \<and>
   hypot (Num (- 100)) (Num 0) \<le> 3200 \<and>
   (\<exists>k j k'.
      getPolarIndex (Num (- 100)) (Num 0) 64 24 60 3200 6 = Some (k, j) \<and>
      getPolarIndex (Num (- 100)) (negate (Num 0)) 64 24 60 3200 6 = Some (k', j) \<and>
      (k' = 64 - 1 - k \<or> k' = 64 - k))"
proof -
  have r: "60 \<le> hypot (Num (- 100)) (Num 0)" "hypot (Num (- 100)) (Num 0) \<le> 3200"
    by (simp_all add: hypot_axis)
  from angular_index_mirror [of 64 6 60 "Num (- 100)" "Num 0" 3200 24, OF _ _ r] r
  show ?thesis by simp
qed

section \<open>Lemmas on the rounding to float32\<close>






lemma fround_nonzero:
  assumes "x \<noteq> 0"
  shows "fround x =
           of_int (roundTiesToEven (x / 2 powr of_int (float32_exponent x - 23))) *
           2 powr of_int (float32_exponent x - 23)"
  using assms unfolding fround_def Let_def by (simp only: if_False)






lemma fround_binade:
  assumes "2 powr real_of_int k \<le> \<bar>x\<bar>" and "\<bar>x\<bar> < 2 powr real_of_int (k + 1)" and "- 126 \<le> k"
  shows "fround x =
           of_int (roundTiesToEven (x / 2 powr real_of_int (k - 23))) * 2 powr real_of_int (k - 23)"
proof -
  have pos: "0 < \<bar>x\<bar>" using assms(1) by (smt (verit) powr_gt_zero)
  have "\<lfloor>log 2 \<bar>x\<bar>\<rfloor> = k"
    using assms(1,2) pos by (subst floor_log_eq_powr_iff) simp_all
  then have e: "float32_exponent x = k" using assms(3) by (simp add: float32_exponent_def)
  have ne: "x \<noteq> 0" using pos by simp
  show ?thesis using fround_nonzero [OF ne] by (simp only: e)
qed

















section \<open>Lemmas on the grid\<close>

lemma splatToGrid_length: "length (splatToGrid cfg g k j ch w) = length g"
  by (simp add: splatToGrid_def Let_def)

lemma splatToGrid_hit:
  assumes "0 \<le> flatIndex cfg k j ch" and "flatIndex cfg k j ch < int (length g)"
  shows "splatToGrid cfg g k j ch w ! nat (flatIndex cfg k j ch) =
           fround (min 1 (g ! nat (flatIndex cfg k j ch) + w))"
  using assms by (simp add: splatToGrid_def Let_def)

lemma splatToGrid_other:
  assumes "i \<noteq> nat (flatIndex cfg k j ch)"
  shows "splatToGrid cfg g k j ch w ! i = g ! i"
  using assms by (simp add: splatToGrid_def Let_def)




lemma splatAll_length: "length (splatAll cfg g k j ch ws) = length g"
  by (induction ws arbitrary: g) (simp_all add: splatAll_def splatToGrid_length)







lemma mixed_radix_inj:
  fixes q q' a a' n :: int
  assumes "0 \<le> a" "a < n" "0 \<le> a'" "a' < n" "q * n + a = q' * n + a'"
  shows "q = q' \<and> a = a'"
proof -
  have n: "0 < n" using assms by simp
  have "q = (q * n + a) div n" using assms(1,2) n by simp
  also have "\<dots> = (q' * n + a') div n" by (simp only: assms(5))
  also have "\<dots> = q'" using assms(3,4) n by simp
  finally have "q = q'" .
  with assms(5) show ?thesis by simp
qed

lemma flatIndex_bounds:
  assumes "0 \<le> k" "k < ANGULAR_BINS cfg" "0 \<le> j" "j < RADIAL_BINS cfg"
    "0 \<le> ch" "ch < CHANNELS cfg"
  shows "0 \<le> flatIndex cfg k j ch" and "flatIndex cfg k j ch < gridSize cfg"
proof -
  let ?A = "ANGULAR_BINS cfg" and ?R = "RADIAL_BINS cfg" and ?C = "CHANNELS cfg"
  have "0 \<le> j * ?A" using assms by simp
  then have q0: "0 \<le> j * ?A + k" using assms by simp
  then have "0 \<le> (j * ?A + k) * ?C" using assms by simp
  then show "0 \<le> flatIndex cfg k j ch" using assms by (simp add: flatIndex_def)
  have "(j + 1) * ?A \<le> ?R * ?A" using assms by (intro mult_right_mono) simp_all
  then have "j * ?A + k + 1 \<le> ?R * ?A" using assms by (simp add: algebra_simps)
  then have "(j * ?A + k + 1) * ?C \<le> ?R * ?A * ?C"
    using assms by (intro mult_right_mono) simp_all
  then have "(j * ?A + k) * ?C + ?C \<le> ?A * ?R * ?C" by (simp add: algebra_simps)
  then show "flatIndex cfg k j ch < gridSize cfg"
    using assms by (simp add: flatIndex_def gridSize_def)
qed

lemma flatIndex_inj:
  assumes "0 \<le> k" "k < ANGULAR_BINS cfg" "0 \<le> ch" "ch < CHANNELS cfg"
    "0 \<le> k'" "k' < ANGULAR_BINS cfg" "0 \<le> ch'" "ch' < CHANNELS cfg"
    "flatIndex cfg k' j' ch' = flatIndex cfg k j ch"
  shows "k' = k \<and> j' = j \<and> ch' = ch"
proof -
  have outer: "j' * ANGULAR_BINS cfg + k' = j * ANGULAR_BINS cfg + k \<and> ch' = ch"
    using assms(7,8,3,4) assms(9) [unfolded flatIndex_def] by (rule mixed_radix_inj)
  then have e: "j' * ANGULAR_BINS cfg + k' = j * ANGULAR_BINS cfg + k" by simp
  have "j' = j \<and> k' = k"
    using assms(5,6,1,2) e by (rule mixed_radix_inj)
  with outer show ?thesis by simp
qed


lemma createPolarGrid_ok:
  assumes "0 \<le> gridSize cfg"
  shows "createPolarGrid cfg = Inr (replicate (nat (gridSize cfg)) 0)"
  using assms by (simp add: createPolarGrid_def newFloat32Array_def)



text \<open>
  Claim C9. For bin indices and a channel within their ranges, the flat index
  \<open>(j * ANGULAR_BINS + k) * CHANNELS + channel\<close> lies inside the grid that
  \<open>createPolarGrid\<close> allocates, no other triple in range has the same flat index, and a
  splat changes the cell at that index and no other.
\<close>

theorem flatIndex_in_bounds_no_alias:
  assumes "0 \<le> k" and "k < ANGULAR_BINS cfg" and "0 \<le> j" and "j < RADIAL_BINS cfg"
    and "0 \<le> ch" and "ch < CHANNELS cfg"
  shows "\<exists>g0. createPolarGrid cfg = Inr g0 \<and>
           int (length g0) = ANGULAR_BINS cfg * RADIAL_BINS cfg * CHANNELS cfg \<and>
           0 \<le> flatIndex cfg k j ch \<and> flatIndex cfg k j ch < int (length g0) \<and>
           (\<forall>k' j' ch'. 0 \<le> k' \<and> k' < ANGULAR_BINS cfg \<and> 0 \<le> j' \<and> j' < RADIAL_BINS cfg \<and>
               0 \<le> ch' \<and> ch' < CHANNELS cfg \<and> (k', j', ch') \<noteq> (k, j, ch) \<longrightarrow>
               flatIndex cfg k' j' ch' \<noteq> flatIndex cfg k j ch) \<and>
           (\<forall>g w. length g = length g0 \<longrightarrow>
               length (splatToGrid cfg g k j ch w) = length g \<and>
               (\<forall>i < length g. splatToGrid cfg g k j ch w ! i =
                  (if i = nat (flatIndex cfg k j ch) then fround (min 1 (g ! i + w)) else g ! i)))"
proof -
  let ?g0 = "replicate (nat (gridSize cfg)) (0::real)"
  have b: "0 \<le> flatIndex cfg k j ch" "flatIndex cfg k j ch < gridSize cfg"
    using assms by (rule flatIndex_bounds)+
  then have sz: "0 \<le> gridSize cfg" by simp
  have len: "int (length ?g0) = gridSize cfg" using sz by simp
  have inj: "flatIndex cfg k' j' ch' \<noteq> flatIndex cfg k j ch"
    if "0 \<le> k'" "k' < ANGULAR_BINS cfg" "0 \<le> ch'" "ch' < CHANNELS cfg"
      "(k', j', ch') \<noteq> (k, j, ch)" for k' j' ch'
  proof
    assume "flatIndex cfg k' j' ch' = flatIndex cfg k j ch"
    from flatIndex_inj [OF assms(1,2,5,6) that(1,2,3,4) this] that(5)
    show False by simp
  qed
  have splat: "splatToGrid cfg g k j ch w ! i =
      (if i = nat (flatIndex cfg k j ch) then fround (min 1 (g ! i + w)) else g ! i)"
    if "length g = length ?g0" for g w i
  proof (cases "i = nat (flatIndex cfg k j ch)")
    case True
    have "flatIndex cfg k j ch < int (length g)" using that b len by simp
    with b(1) show ?thesis using True by (simp add: splatToGrid_hit)
  next
    case False
    then show ?thesis by (simp add: splatToGrid_other)
  qed
  have c1: "createPolarGrid cfg = Inr ?g0" using sz by (rule createPolarGrid_ok)
  have c2: "int (length ?g0) = ANGULAR_BINS cfg * RADIAL_BINS cfg * CHANNELS cfg"
    using len by (simp only: gridSize_def)
  have c3: "flatIndex cfg k j ch < int (length ?g0)" using b(2) len by simp
  have c4: "\<forall>k' j' ch'. 0 \<le> k' \<and> k' < ANGULAR_BINS cfg \<and> 0 \<le> j' \<and> j' < RADIAL_BINS cfg \<and>
               0 \<le> ch' \<and> ch' < CHANNELS cfg \<and> (k', j', ch') \<noteq> (k, j, ch) \<longrightarrow>
               flatIndex cfg k' j' ch' \<noteq> flatIndex cfg k j ch"
  proof (intro allI impI)
    fix k' j' ch'
    assume a: "0 \<le> k' \<and> k' < ANGULAR_BINS cfg \<and> 0 \<le> j' \<and> j' < RADIAL_BINS cfg \<and>
               0 \<le> ch' \<and> ch' < CHANNELS cfg \<and> (k', j', ch') \<noteq> (k, j, ch)"
    then have "0 \<le> k'" "k' < ANGULAR_BINS cfg" "0 \<le> ch'" "ch' < CHANNELS cfg"
      "(k', j', ch') \<noteq> (k, j, ch)" by simp_all
    then show "flatIndex cfg k' j' ch' \<noteq> flatIndex cfg k j ch" by (rule inj)
  qed
  have c5: "\<forall>g w. length g = length ?g0 \<longrightarrow>
               length (splatToGrid cfg g k j ch w) = length g \<and>
               (\<forall>i < length g. splatToGrid cfg g k j ch w ! i =
                  (if i = nat (flatIndex cfg k j ch) then fround (min 1 (g ! i + w)) else g ! i))"
  proof (intro allI impI conjI)
    fix g :: "real list" and w :: real
    show "length (splatToGrid cfg g k j ch w) = length g" by (rule splatToGrid_length)
  next
    fix g :: "real list" and w :: real and i
    assume "length g = length ?g0"
    then show "splatToGrid cfg g k j ch w ! i =
        (if i = nat (flatIndex cfg k j ch) then fround (min 1 (g ! i + w)) else g ! i)"
      by (rule splat)
  qed
  show ?thesis
    by (rule exI [of _ ?g0]) (intro conjI c1 c2 c3 c4 c5 b(1))
qed


theorem flatIndex_in_bounds_no_alias_witness:
  "(0::int) \<le> 5 \<and> 5 < ANGULAR_BINS defaultConfig \<and> (0::int) \<le> 2 \<and> 2 < RADIAL_BINS defaultConfig \<and>
   (0::int) \<le> 3 \<and> 3 < CHANNELS defaultConfig \<and>
   (\<exists>g0. createPolarGrid defaultConfig = Inr g0 \<and> int (length g0) = 64 * 24 * 4 \<and>
      0 \<le> flatIndex defaultConfig 5 2 3 \<and> flatIndex defaultConfig 5 2 3 < int (length g0) \<and>
      flatIndex defaultConfig 6 2 3 \<noteq> flatIndex defaultConfig 5 2 3 \<and>
      length (splatToGrid defaultConfig g0 5 2 3 (1 / 4)) = length g0)"
proof -
  let ?c = defaultConfig
  let ?P = "\<lambda>g0. createPolarGrid ?c = Inr g0 \<and>
           int (length g0) = ANGULAR_BINS ?c * RADIAL_BINS ?c * CHANNELS ?c \<and>
           0 \<le> flatIndex ?c 5 2 3 \<and> flatIndex ?c 5 2 3 < int (length g0) \<and>
           (\<forall>k' j' ch'. 0 \<le> k' \<and> k' < ANGULAR_BINS ?c \<and> 0 \<le> j' \<and> j' < RADIAL_BINS ?c \<and>
               0 \<le> ch' \<and> ch' < CHANNELS ?c \<and> (k', j', ch') \<noteq> (5, 2, 3) \<longrightarrow>
               flatIndex ?c k' j' ch' \<noteq> flatIndex ?c 5 2 3) \<and>
           (\<forall>g w. length g = length g0 \<longrightarrow>
               length (splatToGrid ?c g 5 2 3 w) = length g \<and>
               (\<forall>i < length g. splatToGrid ?c g 5 2 3 w ! i =
                  (if i = nat (flatIndex ?c 5 2 3) then fround (min 1 (g ! i + w)) else g ! i)))"
  have v: "ANGULAR_BINS ?c = 64" "RADIAL_BINS ?c = 24" "CHANNELS ?c = 4"
    by (simp_all add: defaultConfig_def)
  have h: "(0::int) \<le> 5" "5 < ANGULAR_BINS ?c" "(0::int) \<le> 2" "2 < RADIAL_BINS ?c"
    "(0::int) \<le> 3" "3 < CHANNELS ?c"
    by (simp_all add: v)
  from flatIndex_in_bounds_no_alias [OF h] obtain g0 where g0: "?P g0" ..
  note r1 = g0 [THEN conjunct2]
  note r2 = r1 [THEN conjunct2]
  note r3 = r2 [THEN conjunct2]
  note r4 = r3 [THEN conjunct2]
  note c = g0 [THEN conjunct1] r2 [THEN conjunct1] r3 [THEN conjunct1]
  have d: "int (length g0) = 64 * 24 * 4"
    using r1 [THEN conjunct1] by (simp only: v)
  have a: "flatIndex ?c 6 2 3 \<noteq> flatIndex ?c 5 2 3"
    by (rule r4 [THEN conjunct1, rule_format]) (simp add: v)
  have b: "length (splatToGrid ?c g0 5 2 3 (1 / 4)) = length g0"
    by (rule splatToGrid_length)
  show ?thesis
    by (intro conjI exI [of _ g0] h a b c d)
qed

section \<open>Lemmas on the normalisation\<close>

lemma normalizeCell_length:
  "length (fst (normalizeCell cfg i ge)) = length (fst ge)"
  "length (snd (normalizeCell cfg i ge)) = length (snd ge)"
  by (simp_all add: normalizeCell_def Let_def)

lemma normalizeCell_other:
  assumes "m \<noteq> i"
  shows "fst (normalizeCell cfg i ge) ! m = fst ge ! m"
    and "snd (normalizeCell cfg i ge) ! m = snd ge ! m"
  using assms by (simp_all add: normalizeCell_def Let_def)

lemma normalizeCell_same:
  assumes "i < length (fst ge)" and "i < length (snd ge)"
  shows "snd (normalizeCell cfg i ge) ! i =
           fround (EMA_BETA cfg * snd ge ! i + (1 - EMA_BETA cfg) * fst ge ! i)"
    and "fst (normalizeCell cfg i ge) ! i =
           (if 0 < snd (normalizeCell cfg i ge) ! i
            then fround (min 1 (fst ge ! i /
                   (SATURATION_FACTOR cfg * snd (normalizeCell cfg i ge) ! i)))
            else fst ge ! i)"
  using assms by (simp_all add: normalizeCell_def Let_def)

lemma fold_normalizeCell_length:
  "length (fst (fold (normalizeCell cfg) js ge)) = length (fst ge)"
  "length (snd (fold (normalizeCell cfg) js ge)) = length (snd ge)"
  by (induction js arbitrary: ge) (simp_all add: normalizeCell_length)

lemma fold_normalizeCell_other:
  assumes "m \<notin> set js"
  shows "fst (fold (normalizeCell cfg) js ge) ! m = fst ge ! m"
    and "snd (fold (normalizeCell cfg) js ge) ! m = snd ge ! m"
  using assms by (induction js arbitrary: ge) (simp_all add: normalizeCell_other)

lemma fold_normalizeCell_same:
  assumes "distinct js" and "i \<in> set js" and "i < length (fst ge)" and "i < length (snd ge)"
  shows "snd (fold (normalizeCell cfg) js ge) ! i =
           fround (EMA_BETA cfg * snd ge ! i + (1 - EMA_BETA cfg) * fst ge ! i)
       \<and> fst (fold (normalizeCell cfg) js ge) ! i =
           (if 0 < snd (fold (normalizeCell cfg) js ge) ! i
            then fround (min 1 (fst ge ! i /
                   (SATURATION_FACTOR cfg * snd (fold (normalizeCell cfg) js ge) ! i)))
            else fst ge ! i)"
  using assms
proof (induction js arbitrary: ge)
  case Nil
  then show ?case by simp
next
  case (Cons a js)
  show ?case
  proof (cases "i = a")
    case True
    then have "i \<notin> set js" using Cons.prems(1) by simp
    then show ?thesis
      using True Cons.prems(3,4)
      by (simp add: fold_normalizeCell_other normalizeCell_same)
  next
    case False
    then have "i \<in> set js" "distinct js" using Cons.prems by simp_all
    then show ?thesis
      using False Cons.IH [of "normalizeCell cfg a ge"] Cons.prems(3,4)
      by (simp add: normalizeCell_length normalizeCell_other)
  qed
qed

lemma normalizeGrid_length:
  "length (fst (normalizeGrid cfg g e)) = length g"
  "length (snd (normalizeGrid cfg g e)) = length e"
  by (simp_all add: normalizeGrid_def fold_normalizeCell_length)

lemma normalizeGrid_nth:
  assumes "i < length g" and "i < length e"
  shows "snd (normalizeGrid cfg g e) ! i =
           fround (EMA_BETA cfg * e ! i + (1 - EMA_BETA cfg) * g ! i)"
    and "fst (normalizeGrid cfg g e) ! i =
           (if 0 < snd (normalizeGrid cfg g e) ! i
            then fround (min 1 (g ! i /
                   (SATURATION_FACTOR cfg * snd (normalizeGrid cfg g e) ! i)))
            else g ! i)"
  using fold_normalizeCell_same [of "[0..<length g]" i "(g, e)" cfg] assms
  by (simp_all add: normalizeGrid_def)




lemma emaAfter_length: "length (emaAfter cfg G e n) = length e"
  by (induction n) (simp_all add: normalizeGrid_length)

lemma emaAfter_step:
  assumes "i < length e" and "i < length (G n)"
  shows "emaAfter cfg G e (Suc n) ! i =
           fround (EMA_BETA cfg * emaAfter cfg G e n ! i + (1 - EMA_BETA cfg) * G n ! i)"
  using assms by (simp add: normalizeGrid_nth emaAfter_length)




text \<open>
  Nor does the EMA always reach \<open>x\<close>: a step smaller than half the distance to the next
  float32 is rounded away. With a decay of \<open>1 - 10 ^ -8\<close> an EMA of 1 never moves towards a
  cell value of \<open>1 / 2\<close>.
\<close>

lemma fround_stall: "fround (199999999 / 200000000) = 1"
  using fround_binade [of "- 1" "199999999 / 200000000"]
  by (simp add: powr_neg_numeral roundTiesToEven_def)

lemma ema_can_stall:
  "emaAfter (defaultConfig\<lparr>EMA_BETA := 99999999 / 100000000\<rparr>) (\<lambda>n. [1 / 2]) [1] n ! 0 = 1"
proof (induction n)
  case 0
  show ?case by simp
next
  case (Suc n)
  have "emaAfter (defaultConfig\<lparr>EMA_BETA := 99999999 / 100000000\<rparr>) (\<lambda>n. [1 / 2]) [1] (Suc n) ! 0 =
      fround (99999999 / 100000000 *
        emaAfter (defaultConfig\<lparr>EMA_BETA := 99999999 / 100000000\<rparr>) (\<lambda>n. [1 / 2]) [1] n ! 0 +
        (1 - 99999999 / 100000000) * (1 / 2))"
    using emaAfter_step [of 0 "[1]" "\<lambda>n. [1 / 2]" n "defaultConfig\<lparr>EMA_BETA := 99999999 / 100000000\<rparr>"]
    by simp
  also have "\<dots> = fround (199999999 / 200000000)" by (simp only: Suc.IH) simp
  finally show ?case by (simp only: fround_stall)
qed




section \<open>The scheduler's transitions\<close>

lemma startCollection_idle:
  assumes "\<not> isCollecting s" and "0 \<le> gridSize (CONFIG s)"
  shows "startCollection t s =
           (s\<lparr>isCollecting := True, sessionId := Some (toString t),
              emaChannels := Some (replicate (nat (gridSize (CONFIG s))) 0),
              samplingInterval := Some (1000 / SAMPLE_RATE_HZ (CONFIG s))\<rparr>,
            [SLITHER_STATUS True (Some (toString t))], None)"
  using assms by (simp add: startCollection_def newFloat32Array_def Let_def)

text \<open>
  Claim C5 says that starting a collection resets the frame and error counters. The
  function assigns neither: after a collection that saw one tick has been stopped, the
  next start leaves \<open>frameCount\<close> at 1.
\<close>

theorem startCollection_resets_counters_counterexample:
  "\<not> (frameCount (fst (startCollection 2000
          (fst (stopCollection (fst (sampleGameState 1500
             \<lparr>win_slither = None, win_snake = None, win_slithers = None, win_snakes = None,
              win_foods = None, win_xm = Undefined, win_ym = Undefined, win_ww = Undefined,
              win_hh = Undefined, win_ws_readyState = None\<rparr>
             (fst (startCollection 1000 initialScript)))))))) = 0)"
  by (simp add: startCollection_def stopCollection_def sampleGameState_def getMySnake_def
      initialScript_def defaultConfig_def newFloat32Array_def gridSize_def Let_def)

text \<open>
  Claim C5, amended. While collecting, \<open>startCollection\<close> does nothing. Otherwise, for a
  grid size that is not negative, it switches to collecting, allocates a zeroed EMA array
  of \<open>ANGULAR_BINS * RADIAL_BINS * CHANNELS\<close> cells, sets the session identifier to the
  decimal string of the current time and posts the status message; the frame, valid-frame
  and error counters keep their values.
\<close>

theorem startCollection_transition:
  "(isCollecting s \<longrightarrow> startCollection t s = (s, [], None)) \<and>
   (\<not> isCollecting s \<and> 0 \<le> gridSize (CONFIG s) \<longrightarrow>
      isCollecting (fst (startCollection t s)) \<and>
      emaChannels (fst (startCollection t s)) =
        Some (replicate (nat (ANGULAR_BINS (CONFIG s) * RADIAL_BINS (CONFIG s) * CHANNELS (CONFIG s))) 0) \<and>
      sessionId (fst (startCollection t s)) = Some (toString t) \<and>
      frameCount (fst (startCollection t s)) = frameCount s \<and>
      validFrames (fst (startCollection t s)) = validFrames s \<and>
      errors (fst (startCollection t s)) = errors s \<and>
      snd (startCollection t s) = ([SLITHER_STATUS True (Some (toString t))], None))"
proof (intro conjI impI)
  assume "isCollecting s"
  then show "startCollection t s = (s, [], None)" by (simp add: startCollection_def)
next
  assume a: "\<not> isCollecting s \<and> 0 \<le> gridSize (CONFIG s)"
  then have e: "startCollection t s =
           (s\<lparr>isCollecting := True, sessionId := Some (toString t),
              emaChannels := Some (replicate (nat (gridSize (CONFIG s))) 0),
              samplingInterval := Some (1000 / SAMPLE_RATE_HZ (CONFIG s))\<rparr>,
            [SLITHER_STATUS True (Some (toString t))], None)"
    by (intro startCollection_idle) simp_all
  show "isCollecting (fst (startCollection t s))" by (simp add: e)
  show "emaChannels (fst (startCollection t s)) =
        Some (replicate (nat (ANGULAR_BINS (CONFIG s) * RADIAL_BINS (CONFIG s) * CHANNELS (CONFIG s))) 0)"
    by (simp add: e gridSize_def)
  show "sessionId (fst (startCollection t s)) = Some (toString t)" by (simp add: e)
  show "frameCount (fst (startCollection t s)) = frameCount s" by (simp add: e)
  show "validFrames (fst (startCollection t s)) = validFrames s" by (simp add: e)
  show "errors (fst (startCollection t s)) = errors s" by (simp add: e)
  show "snd (startCollection t s) = ([SLITHER_STATUS True (Some (toString t))], None)"
    by (simp add: e)
qed

theorem startCollection_transition_witness:
  "isCollecting (initialScript\<lparr>isCollecting := True\<rparr>) \<and>
   startCollection 2000 (initialScript\<lparr>isCollecting := True\<rparr>) =
     (initialScript\<lparr>isCollecting := True\<rparr>, [], None) \<and>
   \<not> isCollecting (initialScript\<lparr>frameCount := 5, errors := 2\<rparr>) \<and>
   0 \<le> gridSize (CONFIG (initialScript\<lparr>frameCount := 5, errors := 2\<rparr>)) \<and>
   isCollecting (fst (startCollection 1000 (initialScript\<lparr>frameCount := 5, errors := 2\<rparr>))) \<and>
   emaChannels (fst (startCollection 1000 (initialScript\<lparr>frameCount := 5, errors := 2\<rparr>))) =
     Some (replicate 6144 0) \<and>
   sessionId (fst (startCollection 1000 (initialScript\<lparr>frameCount := 5, errors := 2\<rparr>))) =
     Some (toString 1000) \<and>
   frameCount (fst (startCollection 1000 (initialScript\<lparr>frameCount := 5, errors := 2\<rparr>))) = 5 \<and>
   errors (fst (startCollection 1000 (initialScript\<lparr>frameCount := 5, errors := 2\<rparr>))) = 2"
proof -
  let ?s1 = "initialScript\<lparr>isCollecting := True\<rparr>"
  let ?s0 = "initialScript\<lparr>frameCount := 5, errors := 2\<rparr>"
  have h1: "isCollecting ?s1" by simp
  have h0: "\<not> isCollecting ?s0 \<and> 0 \<le> gridSize (CONFIG ?s0)"
    by (simp add: initialScript_def defaultConfig_def gridSize_def)
  have v: "ANGULAR_BINS (CONFIG ?s0) * RADIAL_BINS (CONFIG ?s0) * CHANNELS (CONFIG ?s0) = 6144"
    "frameCount ?s0 = 5" "errors ?s0 = 2"
    by (simp_all add: initialScript_def defaultConfig_def)
  note a = startCollection_transition [of ?s1 2000, THEN conjunct1, rule_format, OF h1]
  note b = startCollection_transition [of ?s0 1000, THEN conjunct2, rule_format, OF h0]
  from b have b': "isCollecting (fst (startCollection 1000 ?s0))"
    "emaChannels (fst (startCollection 1000 ?s0)) = Some (replicate 6144 0)"
    "sessionId (fst (startCollection 1000 ?s0)) = Some (toString 1000)"
    "frameCount (fst (startCollection 1000 ?s0)) = 5"
    "errors (fst (startCollection 1000 ?s0)) = 2"
    unfolding v by simp_all
  show ?thesis using h1 h0 a b' by (intro conjI) simp_all
qed

lemma toString_1000: "toString 1000 = ''1000''"
  by (simp add: toString.simps)

text \<open>
  Claim C10. While collecting, a tick on which the observer's snake exists but has an
  \<open>xx\<close> or \<open>yy\<close> equal to zero only increments the frame counter: nothing is posted (no
  frame, no error message), and the error counter, the EMA array, the previous position
  and the last sample time stay as they were.
\<close>

theorem sampleGameState_zero_coordinate:
  assumes "isCollecting s" and "getMySnake win = Some mySnake"
    and "snake_xx mySnake \<in> {Number (Num 0), Number NegZero} \<or>
         snake_yy mySnake \<in> {Number (Num 0), Number NegZero}"
  shows "sampleGameState now win s = (s\<lparr>frameCount := frameCount s + 1\<rparr>, [])"
  using assms by (auto simp: sampleGameState_def Let_def)

theorem sampleGameState_zero_coordinate_witness:
  "isCollecting (initialScript\<lparr>isCollecting := True, errors := 3\<rparr>) \<and>
   getMySnake \<lparr>win_slither = Some \<lparr>snake_ref = 1, snake_xx = Number (Num 0),
                  snake_yy = Number (Num 21600), snake_ang = 0, snake_scl = Number (Num 1),
                  snake_pts = None\<rparr>,
               win_snake = None, win_slithers = None, win_snakes = None,
               win_foods = None, win_xm = Undefined, win_ym = Undefined, win_ww = Undefined,
               win_hh = Undefined, win_ws_readyState = None\<rparr> =
     Some \<lparr>snake_ref = 1, snake_xx = Number (Num 0), snake_yy = Number (Num 21600),
            snake_ang = 0, snake_scl = Number (Num 1), snake_pts = None\<rparr> \<and>
   sampleGameState 100
     \<lparr>win_slither = Some \<lparr>snake_ref = 1, snake_xx = Number (Num 0),
                  snake_yy = Number (Num 21600), snake_ang = 0, snake_scl = Number (Num 1),
                  snake_pts = None\<rparr>,
      win_snake = None, win_slithers = None, win_snakes = None,
      win_foods = None, win_xm = Undefined, win_ym = Undefined, win_ww = Undefined,
      win_hh = Undefined, win_ws_readyState = None\<rparr>
     (initialScript\<lparr>isCollecting := True, errors := 3\<rparr>) =
     (initialScript\<lparr>isCollecting := True, errors := 3, frameCount := 1\<rparr>, [])"
proof -
  let ?m = "\<lparr>snake_ref = 1, snake_xx = Number (Num 0), snake_yy = Number (Num 21600),
            snake_ang = 0, snake_scl = Number (Num 1), snake_pts = None\<rparr>"
  let ?w = "\<lparr>win_slither = Some ?m,
      win_snake = None, win_slithers = None, win_snakes = None,
      win_foods = None, win_xm = Undefined, win_ym = Undefined, win_ww = Undefined,
      win_hh = Undefined, win_ws_readyState = None\<rparr>"
  let ?s = "initialScript\<lparr>isCollecting := True, errors := 3\<rparr>"
  have h: "isCollecting ?s" "getMySnake ?w = Some ?m"
    "snake_xx ?m \<in> {Number (Num 0), Number NegZero} \<or>
     snake_yy ?m \<in> {Number (Num 0), Number NegZero}"
    by (simp_all add: getMySnake_def)
  from sampleGameState_zero_coordinate [OF h, of 100] h(1,2)
  show ?thesis by (simp add: initialScript_def)
qed

text \<open>
  For comparison, the tick of a snake with a position: it runs \<open>sampleFrame\<close>, which
  posts one frame holding a grid of the configured size.
\<close>

lemma sampleGameState_with_position:
  assumes "isCollecting s" and "getMySnake win = Some mySnake"
    and "truthy (snake_xx mySnake)" and "truthy (snake_yy mySnake)"
  shows "sampleGameState now win s =
           sampleFrame now ((now - lastSampleTime s) / 1000) win mySnake
             (s\<lparr>frameCount := frameCount s + 1\<rparr>)"
  using assms by (simp add: sampleGameState_def Let_def)

lemma foodStep_length: "length (fst (foodStep cfg mySnake food acc)) = length (fst acc)"
  by (simp add: foodStep_def Let_def splatToGrid_length
      split: option.splits jsval.splits prod.splits)

lemma populateGridWithFood_length:
  "length (fst (populateGridWithFood cfg win g mySnake)) = length g"
proof -
  have "length (fst (fold (foodStep cfg mySnake) fs acc)) = length (fst acc)" for fs acc
    by (induction fs arbitrary: acc) (simp_all add: foodStep_length)
  then show ?thesis by (simp add: populateGridWithFood_def)
qed

lemma segmentStep_length:
  "length (fst (segmentStep cfg mySnake sn iseg acc)) = length (fst acc)"
  by (simp add: segmentStep_def Let_def splatToGrid_length
      split: option.splits jsval.splits prod.splits)

lemma snakeStep_length: "length (fst (snakeStep cfg mySnake entry acc)) = length (fst acc)"
proof -
  have "length (fst (fold (segmentStep cfg mySnake sn) zs a)) = length (fst a)" for sn zs a
    by (induction zs arbitrary: a) (simp_all add: segmentStep_length)
  then show ?thesis by (simp add: snakeStep_def split: option.splits)
qed

lemma populateGridWithSnakes_length:
  "length (fst (populateGridWithSnakes cfg win g mySnake)) = length g"
proof -
  have "length (fst (fold (snakeStep cfg mySnake) ss acc)) = length (fst acc)" for ss acc
    by (induction ss arbitrary: acc) (simp_all add: snakeStep_length)
  then show ?thesis by (simp add: populateGridWithSnakes_def)
qed

lemma sampleFrame_emits:
  assumes "0 \<le> gridSize (CONFIG s)" and "emaChannels s = Some ema"
  shows "\<exists>s' f. sampleFrame now dt win mySnake s = (s', [SLITHER_DATA_FRAME f]) \<and>
           validFrames s' = validFrames s + 1 \<and> errors s' = errors s \<and>
           frameCount s' = frameCount s \<and> lastSampleTime s' = now \<and>
           length (grid f) = nat (gridSize (CONFIG s))"
  using assms
  by (simp add: sampleFrame_def Let_def createPolarGrid_ok normalizeGrid_length
      populateGridWithSnakes_length populateGridWithFood_length)

end
